theory Spec2Isabelle
  imports Main
begin

section \<open>The comment model (src/core/server/models/comment/comment.ts)\<close>

text \<open>
  Dates are the milliseconds since the epoch (JavaScript compares two \<^verbatim>\<open>Date\<close> objects
  with \<^verbatim>\<open><=\<close> through their numeric value), counters are integers, and an optional
  or nullable field is an \<open>option\<close>.
\<close>

text \<open>
  Modelled from the spec: the enumeration \<^verbatim>\<open>GQLCOMMENT_STATUS\<close> lives in the generated
  GraphQL types, which are not among the sources. The spec lists its values as
  NONE, PREMOD, APPROVED and REJECTED.
\<close>

datatype GQLCOMMENT_STATUS = NONE | APPROVED | REJECTED | PREMOD

text \<open>
  \<^verbatim>\<open>EncodedCommentActionCounts\<close> is a plain object from action keys to numbers. It is an
  association list here, in the key order of the object, so that \<^verbatim>\<open>isEmpty\<close> is decidable.
\<close>

type_synonym EncodedCommentActionCounts = "(string \<times> int) list"

record Revision =
  id_Revision :: string
  body :: string
  actionCounts_Revision :: EncodedCommentActionCounts
  metadata :: "string option"
  createdAt_Revision :: int
  media :: "string option"

record Comment =
  id_Comment :: string
  tenantID :: string
  ancestorIDs :: "string list"
  parentID :: "string option"
  parentRevisionID :: "string option"
  authorID :: "string option"
  storyID :: string
  siteID :: string
  section_Comment :: "string option"
  revisions :: "Revision list"
  status :: GQLCOMMENT_STATUS
  actionCounts :: EncodedCommentActionCounts
  childIDs :: "string list"
  tags :: "string list"
  rating :: "int option"
  childCount :: int
  createdAt :: int
  deletedAt :: "int option"

text \<open>
  Every failure the modelled functions raise. The plain \<^verbatim>\<open>new Error("...")\<close> of the
  source are told apart by their message.
\<close>

datatype error =
    CommentNotFound  \<comment> \<open>\<^verbatim>\<open>Error("comment not found")\<close>\<close>
  | CommentAuthorMismatch  \<comment> \<open>\<^verbatim>\<open>Error("comment author mismatch")\<close>\<close>
  | CommentStatusNotEditable  \<comment> \<open>\<^verbatim>\<open>Error("comment status is not editable")\<close>\<close>
  | CommentEditWindowExpiredError string
  | CommentEditFailedUnexpected  \<comment> \<open>\<^verbatim>\<open>Error("comment edit failed for an unexpected reason")\<close>\<close>
  | CommentRevisionNotFoundError string string
  | ParentDoesNotExist  \<comment> \<open>\<^verbatim>\<open>Error("parent id specified does not exist")\<close>\<close>
  | ArchiveNotInitialized  \<comment> \<open>\<^verbatim>\<open>Error("Cannot archive, archive connection is not initialized")\<close>\<close>
  | StoryNotFoundError string

subsection \<open>The store's primitives\<close>

text \<open>
  A collection is the list of its documents. \<^verbatim>\<open>findOne\<close> returns the first document that
  matches the filter; \<^verbatim>\<open>findOneAndUpdate\<close> updates that document in place and returns the
  document as it was before the update together with the new collection (the caller
  applies the update to the returned document when \<^verbatim>\<open>returnOriginal\<close> is false).
\<close>

definition findOne :: "('d \<Rightarrow> bool) \<Rightarrow> 'd list \<Rightarrow> 'd option" where
  "findOne p coll = find p coll"

fun findOneAndUpdate :: "('d \<Rightarrow> bool) \<Rightarrow> ('d \<Rightarrow> 'd) \<Rightarrow> 'd list \<Rightarrow> 'd option \<times> 'd list" where
  "findOneAndUpdate p u [] = (None, [])"
| "findOneAndUpdate p u (d # ds) =
     (if p d then (Some d, u d # ds)
      else (case findOneAndUpdate p u ds of (r, ds') \<Rightarrow> (r, d # ds')))"

text \<open>
  The \<^verbatim>\<open>$inc\<close> of one dotted key: an existing counter is increased, a missing one is
  created with the increment as its value.
\<close>

fun inc_key :: "string \<Rightarrow> int \<Rightarrow> EncodedCommentActionCounts \<Rightarrow> EncodedCommentActionCounts" where
  "inc_key k v [] = [(k, v)]"
| "inc_key k v ((k', x) # rest) =
     (if k = k' then (k', x + v) # rest else (k', x) # inc_key k v rest)"

definition inc_counts :: "EncodedCommentActionCounts \<Rightarrow> EncodedCommentActionCounts \<Rightarrow> EncodedCommentActionCounts" where
  "inc_counts delta current = fold (\<lambda>(k, v). inc_key k v) delta current"

text \<open>
  Modelled from the spec: \<^verbatim>\<open>mergeCommentActionCounts\<close> (coral-server/models/action/comment)
  is not among the sources. \<^verbatim>\<open>editComment\<close> uses it to apply to the returned document
  "the same changes as we did to the MongoDB document", that is the increment.
\<close>

definition mergeCommentActionCounts :: "EncodedCommentActionCounts \<Rightarrow> EncodedCommentActionCounts \<Rightarrow> EncodedCommentActionCounts" where
  "mergeCommentActionCounts current delta = inc_counts delta current"

subsection \<open>pushChildCommentIDOntoParent\<close>

definition pushChildCommentIDOntoParent ::
  "Comment list \<Rightarrow> string \<Rightarrow> string \<Rightarrow> string \<Rightarrow> Comment option \<times> Comment list" where
  "pushChildCommentIDOntoParent mongo tenantID' parentID' childID =
     findOneAndUpdate
       (\<lambda>c. tenantID c = tenantID' \<and> id_Comment c = parentID')
       (\<lambda>c. c\<lparr>childIDs := childIDs c @ [childID], childCount := childCount c + 1\<rparr>)
       mongo"

subsection \<open>editComment\<close>

record EditCommentInput =
  id_Input :: string
  authorID_Input :: "string option"
  status_Input :: GQLCOMMENT_STATUS
  lastEditableCommentCreatedAt :: int
  body_Input :: string
  metadata_Input :: "string option"
  media_Input :: "string option"
  actionCounts_Input :: "EncodedCommentActionCounts option"

definition EDITABLE_STATUSES :: "GQLCOMMENT_STATUS list" where
  "EDITABLE_STATUSES = [NONE, PREMOD, APPROVED]"

text \<open>\<open>validateEditable\<close> returns the error it throws, or \<open>None\<close> when it returns normally.\<close>

definition validateEditable :: "Comment \<Rightarrow> string option \<Rightarrow> int \<Rightarrow> error option" where
  "validateEditable comment authorID' lastEditable =
     (if authorID comment \<noteq> authorID' then Some CommentAuthorMismatch
      else if \<not> List.member EDITABLE_STATUSES (status comment) then Some CommentStatusNotEditable
      else if createdAt comment \<le> lastEditable then Some (CommentEditWindowExpiredError (id_Comment comment))
      else None)"

record EditComment =
  before :: Comment
  after :: Comment
  revision :: Revision

definition retrieveComment :: "Comment list \<Rightarrow> string \<Rightarrow> string \<Rightarrow> Comment option" where
  "retrieveComment mongo tenantID' id' =
     findOne (\<lambda>c. id_Comment c = id' \<and> tenantID c = tenantID') mongo"

text \<open>The filter of the conditional update of \<open>editComment\<close>.\<close>

definition editFilter :: "string \<Rightarrow> EditCommentInput \<Rightarrow> Comment \<Rightarrow> bool" where
  "editFilter tenantID' input c =
     (id_Comment c = id_Input input \<and> tenantID c = tenantID' \<and>
      authorID c = authorID_Input input \<and>
      List.member EDITABLE_STATUSES (status c) \<and>
      deletedAt c = None \<and>
      createdAt c > lastEditableCommentCreatedAt input)"

text \<open>
  \<open>editComment\<close> takes the fresh revision id (\<^verbatim>\<open>uuid.v4()\<close>) and the clock as arguments
  and returns the result together with the collection after the call.
\<close>

definition editComment ::
  "Comment list \<Rightarrow> string \<Rightarrow> EditCommentInput \<Rightarrow> string \<Rightarrow> int \<Rightarrow> (error + EditComment) \<times> Comment list" where
  "editComment mongo tenantID' input uuid now =
     (let counts = (case actionCounts_Input input of None \<Rightarrow> [] | Some a \<Rightarrow> a);
          rev' = \<lparr>id_Revision = uuid, body = body_Input input, actionCounts_Revision = counts,
                  metadata = metadata_Input input, createdAt_Revision = now,
                  media = media_Input input\<rparr>;
          update = (\<lambda>c. c\<lparr>status := status_Input input,
                           revisions := revisions c @ [rev'],
                           actionCounts := (if counts = [] then actionCounts c
                                            else inc_counts counts (actionCounts c))\<rparr>)
      in case findOneAndUpdate (editFilter tenantID' input) update mongo of
           (None, mongo') \<Rightarrow>
             (case retrieveComment mongo' tenantID' (id_Input input) of
                None \<Rightarrow> (Inl CommentNotFound, mongo')
              | Some comment \<Rightarrow>
                  (case validateEditable comment (authorID_Input input)
                          (lastEditableCommentCreatedAt input) of
                     Some e \<Rightarrow> (Inl e, mongo')
                   | None \<Rightarrow> (Inl CommentEditFailedUnexpected, mongo')))
         | (Some original, mongo') \<Rightarrow>
             (Inr \<lparr>before = original,
                   after = original\<lparr>status := status_Input input,
                                    actionCounts := mergeCommentActionCounts (actionCounts original) counts,
                                    revisions := revisions original @ [rev']\<rparr>,
                   revision = rev'\<rparr>, mongo'))"

subsection \<open>updateCommentActionCounts\<close>

text \<open>
  The filter of the update is \<^verbatim>\<open>{ id, tenantID }\<close> alone. \<^verbatim>\<open>revisionID\<close> only enters the
  array filter \<^verbatim>\<open>revision.id\<close> of the positional operator \<^verbatim>\<open>revisions.$[revision]\<close>, which
  selects the array elements that the increment touches: every revision with that id is
  incremented, and when none has it the array is left as it is while the increment of
  the comment's own \<^verbatim>\<open>actionCounts\<close> is still applied.
\<close>

definition updateCommentActionCounts ::
  "Comment list \<Rightarrow> string \<Rightarrow> string \<Rightarrow> string \<Rightarrow> EncodedCommentActionCounts
     \<Rightarrow> (error + Comment) \<times> Comment list" where
  "updateCommentActionCounts mongo tenantID' id' revisionID counts =
     (let update = (\<lambda>c. c\<lparr>actionCounts := inc_counts counts (actionCounts c),
                           revisions := map (\<lambda>r. if id_Revision r = revisionID
                                                   then r\<lparr>actionCounts_Revision :=
                                                            inc_counts counts (actionCounts_Revision r)\<rparr>
                                                   else r) (revisions c)\<rparr>)
      in case findOneAndUpdate (\<lambda>c. id_Comment c = id' \<and> tenantID c = tenantID') update mongo of
           (None, mongo') \<Rightarrow> (Inl (CommentRevisionNotFoundError id' revisionID), mongo')
         | (Some original, mongo') \<Rightarrow> (Inr (update original), mongo'))"

section \<open>Connections\<close>

text \<open>
  A cursor is a date (the orderings by creation time) or a number (the orderings by a
  count, and the parents of a comment).
\<close>

datatype Cursor = CursorDate int | CursorNumber int

record Edge =
  node :: Comment
  cursor :: Cursor

record PageInfo =
  hasNextPage :: bool
  hasPreviousPage :: bool
  startCursor :: "Cursor option"
  endCursor :: "Cursor option"

record Connection =
  edges :: "Edge list"
  nodes :: "Comment list"
  pageInfo :: PageInfo

text \<open>
  Modelled from the spec: \<^verbatim>\<open>createConnection\<close>, \<^verbatim>\<open>nodesToEdges\<close> and \<^verbatim>\<open>doesNotContainNull\<close>
  (coral-server/models/helpers) and \<^verbatim>\<open>hasAncestors\<close> (./helpers) are not among the
  sources. A page is \<open>nodes\<close>, \<open>edges\<close> of node and cursor, and \<open>pageInfo\<close>; the page that
  \<^verbatim>\<open>createConnection\<close> builds from a \<open>pageInfo\<close> alone has no node and no edge. An edge pairs
  a node with the cursor that the transformer gives for the node and its index in the
  page. \<open>ancestorIDs\<close> is empty for a top-level comment.
\<close>

definition createConnection :: "PageInfo \<Rightarrow> Connection" where
  "createConnection p = \<lparr>edges = [], nodes = [], pageInfo = p\<rparr>"

definition nodesToEdges :: "Comment list \<Rightarrow> (Comment \<Rightarrow> int \<Rightarrow> Cursor) \<Rightarrow> Edge list" where
  "nodesToEdges ns transformer =
     map (\<lambda>(index, n). \<lparr>node = n, cursor = transformer n (int index)\<rparr>) (enumerate 0 ns)"

definition doesNotContainNull :: "'a option list \<Rightarrow> bool" where
  "doesNotContainNull items = list_all (\<lambda>item. item \<noteq> None) items"

definition hasAncestors :: "Comment \<Rightarrow> bool" where
  "hasAncestors comment = (length (ancestorIDs comment) > 0)"

text \<open>
  \<^verbatim>\<open>Array.prototype.slice(start, end)\<close>: a negative index counts from the end of the array,
  and both indices are clamped to the array.
\<close>

definition slice :: "'a list \<Rightarrow> int \<Rightarrow> int \<Rightarrow> 'a list" where
  "slice xs start stop =
     (let len = int (length xs);
          k = (if start < 0 then max (len + start) 0 else min start len);
          final = (if stop < 0 then max (len + stop) 0 else min stop len)
      in take (nat (final - k)) (drop (nat k) xs))"

subsection \<open>retrieveManyComments and retrieveCommentParentsConnection\<close>

definition retrieveManyComments :: "Comment list \<Rightarrow> string \<Rightarrow> string list \<Rightarrow> Comment option list" where
  "retrieveManyComments collection tenantID' ids =
     (let items = filter (\<lambda>c. List.member ids (id_Comment c) \<and> tenantID c = tenantID') collection
      in if length items > 0
         then map (\<lambda>id'. find (\<lambda>comment. id_Comment comment = id') items) ids
         else [])"

text \<open>The arguments \<open>limit\<close> and \<open>before'\<close> are \<^verbatim>\<open>last\<close> and the optional \<^verbatim>\<open>before\<close>.\<close>

definition retrieveCommentParentsConnection ::
  "Comment list \<Rightarrow> string \<Rightarrow> Comment \<Rightarrow> int \<Rightarrow> int option \<Rightarrow> error + Connection" where
  "retrieveCommentParentsConnection collection tenantID' comment limit before' =
     (let skip = (case before' of None \<Rightarrow> 0 | Some b \<Rightarrow> b)
      in if \<not> hasAncestors comment
         then Inr (createConnection \<lparr>hasNextPage = False, hasPreviousPage = False,
                                     startCursor = None, endCursor = None\<rparr>)
         else if limit \<le> 0
         then Inr (createConnection \<lparr>hasNextPage = False, hasPreviousPage = True,
                                     startCursor = Some (CursorNumber 0),
                                     endCursor = Some (CursorNumber 0)\<rparr>)
         else
           (let ancestorIDs' = slice (ancestorIDs comment) skip (skip + limit);
                found = retrieveManyComments collection tenantID' ancestorIDs'
            in if \<not> doesNotContainNull found then Inl ParentDoesNotExist
               else
                 (let nodes' = List.map_filter (\<lambda>n. n) found;
                      edges' = rev (nodesToEdges nodes' (\<lambda>_ index. CursorNumber (index + skip + 1)))
                  in Inr \<lparr>edges = edges', nodes = nodes',
                          pageInfo = \<lparr>hasNextPage = False,
                                      hasPreviousPage = (int (length (ancestorIDs comment)) > limit + skip),
                                      startCursor = (if length edges' > 0 then Some (cursor (hd edges')) else None),
                                      endCursor = (if length edges' > 0 then Some (cursor (last edges')) else None)\<rparr>\<rparr>)))"

subsection \<open>Ordered connections\<close>

datatype GQLCOMMENT_SORT = CREATED_AT_DESC | CREATED_AT_ASC | REPLIES_DESC | REACTION_DESC

record CommentConnectionInput =
  first :: nat
  after_Connection :: "Cursor option"
  orderBy :: GQLCOMMENT_SORT
  filter_Connection :: "(Comment \<Rightarrow> bool) option"

text \<open>
  The truthiness of \<^verbatim>\<open>input.after\<close>: an absent cursor and the number 0 are falsy, a date is
  an object and truthy. The casts \<^verbatim>\<open>input.after as number\<close> and \<^verbatim>\<open>input.after as Date\<close> are
  unchecked; \<open>asNumber\<close> and \<open>asDate\<close> read the value the cursor carries.
\<close>

fun truthy :: "Cursor option \<Rightarrow> bool" where
  "truthy None = False"
| "truthy (Some (CursorNumber n)) = (n \<noteq> 0)"
| "truthy (Some (CursorDate d)) = True"

fun asNumber :: "Cursor option \<Rightarrow> int" where
  "asNumber (Some (CursorNumber n)) = n"
| "asNumber (Some (CursorDate d)) = d"
| "asNumber None = 0"

fun asDate :: "Cursor option \<Rightarrow> int" where
  "asDate (Some (CursorDate d)) = d"
| "asDate (Some (CursorNumber n)) = n"
| "asDate None = 0"

fun cursorGetterFactory :: "GQLCOMMENT_SORT \<Rightarrow> Cursor option \<Rightarrow> Comment \<Rightarrow> int \<Rightarrow> Cursor" where
  "cursorGetterFactory CREATED_AT_DESC after' = (\<lambda>comment _. CursorDate (createdAt comment))"
| "cursorGetterFactory CREATED_AT_ASC after' = (\<lambda>comment _. CursorDate (createdAt comment))"
| "cursorGetterFactory REPLIES_DESC after' =
     (\<lambda>_ index. CursorNumber ((if truthy after' then asNumber after' else 0) + index + 1))"
| "cursorGetterFactory REACTION_DESC after' =
     (\<lambda>_ index. CursorNumber ((if truthy after' then asNumber after' else 0) + index + 1))"

text \<open>
  Modelled from the spec: the class \<^verbatim>\<open>Query\<close> and \<^verbatim>\<open>resolveConnection\<close>
  (coral-server/models/helpers) are not among the sources. A query holds the filters
  given to \<^verbatim>\<open>where\<close>, the sort specification given to \<^verbatim>\<open>orderBy\<close> (fields with direction
  1 or -1, the first field most significant), the offset given to \<^verbatim>\<open>after\<close> and the limit.
  Executing it filters the collection, sorts it, skips the offset and takes the limit.
  A field that a document lacks sorts below every number. The sort is stable.
  \<^verbatim>\<open>resolveConnection\<close> turns the first \<open>first\<close> documents of the executed query into a
  page of nodes and edges, the edge cursors given by the transformer, with
  \<open>startCursor\<close> and \<open>endCursor\<close> the cursors of the first and last edge and \<open>hasNextPage\<close>
  telling whether a further document follows.
\<close>

datatype SortField = Field_createdAt | Field_childCount | Field_actionCounts_REACTION

record Query =
  collection_Query :: "Comment list"
  filters_Query :: "(Comment \<Rightarrow> bool) list"
  sort_Query :: "(SortField \<times> int) list"
  skip_Query :: int
  limit_Query :: "nat option"

fun fieldValue :: "SortField \<Rightarrow> Comment \<Rightarrow> int option" where
  "fieldValue Field_createdAt c = Some (createdAt c)"
| "fieldValue Field_childCount c = Some (childCount c)"
| "fieldValue Field_actionCounts_REACTION c = map_of (actionCounts c) ''REACTION''"

fun below :: "int option \<Rightarrow> int option \<Rightarrow> bool" where
  "below None (Some y) = True"
| "below (Some x) (Some y) = (x < y)"
| "below _ None = False"

text \<open>\<open>precedes spec a b\<close>: document \<open>a\<close> may stand before document \<open>b\<close> in the order \<open>spec\<close>.\<close>

fun precedes :: "(SortField \<times> int) list \<Rightarrow> Comment \<Rightarrow> Comment \<Rightarrow> bool" where
  "precedes [] a b = True"
| "precedes ((f, direction) # rest) a b =
     (if fieldValue f a = fieldValue f b then precedes rest a b
      else if direction < 0 then below (fieldValue f b) (fieldValue f a)
      else below (fieldValue f a) (fieldValue f b))"

fun insert_by :: "('a \<Rightarrow> 'a \<Rightarrow> bool) \<Rightarrow> 'a \<Rightarrow> 'a list \<Rightarrow> 'a list" where
  "insert_by le x [] = [x]"
| "insert_by le x (y # ys) = (if le x y then x # y # ys else y # insert_by le x ys)"

definition sort_by :: "('a \<Rightarrow> 'a \<Rightarrow> bool) \<Rightarrow> 'a list \<Rightarrow> 'a list" where
  "sort_by le xs = foldr (insert_by le) xs []"

definition query_where :: "(Comment \<Rightarrow> bool) \<Rightarrow> Query \<Rightarrow> Query" where
  "query_where p q = q\<lparr>filters_Query := filters_Query q @ [p]\<rparr>"

definition query_orderBy :: "(SortField \<times> int) list \<Rightarrow> Query \<Rightarrow> Query" where
  "query_orderBy spec q = q\<lparr>sort_Query := spec\<rparr>"

definition query_after :: "int \<Rightarrow> Query \<Rightarrow> Query" where
  "query_after n q = q\<lparr>skip_Query := n\<rparr>"

definition query_first :: "nat \<Rightarrow> Query \<Rightarrow> Query" where
  "query_first n q = q\<lparr>limit_Query := Some n\<rparr>"

definition new_Query :: "Comment list \<Rightarrow> Query" where
  "new_Query collection =
     \<lparr>collection_Query = collection, filters_Query = [], sort_Query = [], skip_Query = 0,
      limit_Query = None\<rparr>"

text \<open>The documents a query selects, in its order, before the offset and the limit.\<close>

definition ordered :: "Query \<Rightarrow> Comment list" where
  "ordered q =
     sort_by (precedes (sort_Query q))
       (filter (\<lambda>c. list_all (\<lambda>p. p c) (filters_Query q)) (collection_Query q))"

definition exec :: "Query \<Rightarrow> Comment list" where
  "exec q =
     (let skipped = drop (nat (skip_Query q)) (ordered q)
      in case limit_Query q of None \<Rightarrow> skipped | Some n \<Rightarrow> take n skipped)"

definition resolveConnection ::
  "Query \<Rightarrow> CommentConnectionInput \<Rightarrow> (Comment \<Rightarrow> int \<Rightarrow> Cursor) \<Rightarrow> Connection" where
  "resolveConnection query input transformer =
     (let fetched = exec (query_first (first input + 1) query);
          nodes' = take (first input) fetched;
          edges' = nodesToEdges nodes' transformer
      in \<lparr>edges = edges', nodes = nodes',
          pageInfo = \<lparr>hasNextPage = (length fetched > first input),
                      hasPreviousPage = False,
                      startCursor = (if length edges' > 0 then Some (cursor (hd edges')) else None),
                      endCursor = (if length edges' > 0 then Some (cursor (last edges')) else None)\<rparr>\<rparr>)"

fun applyInputToQuery :: "GQLCOMMENT_SORT \<Rightarrow> Cursor option \<Rightarrow> Query \<Rightarrow> Query" where
  "applyInputToQuery CREATED_AT_DESC after' query =
     (let q = query_orderBy [(Field_createdAt, -1)] query
      in if truthy after' then query_where (\<lambda>c. createdAt c < asDate after') q else q)"
| "applyInputToQuery CREATED_AT_ASC after' query =
     (let q = query_orderBy [(Field_createdAt, 1)] query
      in if truthy after' then query_where (\<lambda>c. createdAt c > asDate after') q else q)"
| "applyInputToQuery REPLIES_DESC after' query =
     (let q = query_orderBy [(Field_childCount, -1), (Field_createdAt, -1)] query
      in if truthy after' then query_after (asNumber after') q else q)"
| "applyInputToQuery REACTION_DESC after' query =
     (let q = query_orderBy [(Field_actionCounts_REACTION, -1), (Field_createdAt, -1)] query
      in if truthy after' then query_after (asNumber after') q else q)"

definition retrieveConnection :: "CommentConnectionInput \<Rightarrow> Query \<Rightarrow> Connection" where
  "retrieveConnection input query =
     resolveConnection
       (applyInputToQuery (orderBy input) (after_Connection input) query)
       input
       (cursorGetterFactory (orderBy input) (after_Connection input))"

definition retrieveCommentConnection :: "Comment list \<Rightarrow> string \<Rightarrow> CommentConnectionInput \<Rightarrow> Connection" where
  "retrieveCommentConnection collection tenantID' input =
     (let query = query_where (\<lambda>c. tenantID c = tenantID') (new_Query collection);
          query' = (case filter_Connection input of
                      None \<Rightarrow> query
                    | Some p \<Rightarrow> query_where p query)
      in retrieveConnection input query')"

subsection \<open>The ranking of an ordering by a count\<close>

text \<open>
  For the orderings by reply count and by reaction count: \<open>countOf\<close> is the count the
  ordering sorts by, \<open>rankedBefore\<close> says that a comment may stand before another one
  (count descending, ties by creation time descending), and \<open>ranking\<close> is the list of
  all the comments a connection selects, in the query's order, before any cursor or
  limit is applied.
\<close>

fun countOf :: "GQLCOMMENT_SORT \<Rightarrow> Comment \<Rightarrow> int option" where
  "countOf REPLIES_DESC c = Some (childCount c)"
| "countOf REACTION_DESC c = map_of (actionCounts c) ''REACTION''"
| "countOf CREATED_AT_DESC c = None"
| "countOf CREATED_AT_ASC c = None"

definition rankedBefore :: "GQLCOMMENT_SORT \<Rightarrow> Comment \<Rightarrow> Comment \<Rightarrow> bool" where
  "rankedBefore order a b =
     (below (countOf order b) (countOf order a) \<or>
      (countOf order a = countOf order b \<and> createdAt b \<le> createdAt a))"

definition ranking :: "Comment list \<Rightarrow> string \<Rightarrow> CommentConnectionInput \<Rightarrow> Comment list" where
  "ranking collection tenantID' input =
     ordered (applyInputToQuery (orderBy input) None
       (case filter_Connection input of
          None \<Rightarrow> query_where (\<lambda>c. tenantID c = tenantID') (new_Query collection)
        | Some p \<Rightarrow> query_where p (query_where (\<lambda>c. tenantID c = tenantID') (new_Query collection))))"

section \<open>Comment counts and the archive (src/unnamed/part_000)\<close>

text \<open>
  Modelled from the spec: the types \<^verbatim>\<open>RelatedCommentCounts\<close> (coral-server/models/comment/counts)
  and \<^verbatim>\<open>Story\<close> (coral-server/models/story) are not among the sources. The spec gives
  \<^verbatim>\<open>RelatedCommentCounts\<close> three parts, the totals per action, the moderation queue (a total
  and a total per queue) and the counts per status, and gives a story its \<open>commentCounts\<close>
  and the flags \<open>isArchived\<close> and \<open>isArchiving\<close>. Each group of counters is an object keyed
  by name, a partial map here, so that two snapshots are equal when they hold the same
  counters whatever the order of their keys.

  \<open>getCommentCounts\<close> guards each part of the story's \<open>commentCounts\<close> with a test for its
  presence, so the snapshot as it is read from the store is \<open>StoredCommentCounts\<close>, where a
  part may be absent, and the value the function builds is \<open>RelatedCommentCounts\<close>, where
  every part is present.
\<close>

record CommentModerationQueueCounts =
  total :: int
  queues :: "string \<rightharpoonup> int"

record RelatedCommentCounts =
  action :: "string \<rightharpoonup> int"
  moderationQueue :: CommentModerationQueueCounts
  status_Counts :: "string \<rightharpoonup> int"

record StoredCommentCounts =
  action_Stored :: "(string \<rightharpoonup> int) option"
  moderationQueue_Stored :: "CommentModerationQueueCounts option"
  status_Stored :: "(string \<rightharpoonup> int) option"

text \<open>A built value seen as a stored snapshot: every part is present.\<close>

definition stored :: "RelatedCommentCounts \<Rightarrow> StoredCommentCounts" where
  "stored c = \<lparr>action_Stored = Some (action c),
               moderationQueue_Stored = Some (moderationQueue c),
               status_Stored = Some (status_Counts c)\<rparr>"

record Story =
  id_Story :: string
  tenantID_Story :: string
  commentCounts :: StoredCommentCounts
  isArchiving :: bool
  isArchived :: bool

text \<open>
  The loop \<^verbatim>\<open>for (const key in source) if (hasOwnProperty(source, key)) target[key] =
  source[key] * multiplier\<close>: every counter of \<open>source\<close> is written, scaled, into
  \<open>target\<close>; the other counters of \<open>target\<close> stay.
\<close>

definition scaleInto :: "int \<Rightarrow> (string \<rightharpoonup> int) \<Rightarrow> (string \<rightharpoonup> int) \<Rightarrow> (string \<rightharpoonup> int)" where
  "scaleInto multiplier source target =
     (\<lambda>key. case source key of None \<Rightarrow> target key | Some n \<Rightarrow> Some (n * multiplier))"

text \<open>
  \<^verbatim>\<open>createEmptyRelatedCommentCounts\<close> (coral-server/models/comment/counts) is not among the
  sources; the value it returns is the argument \<open>emptyCounts\<close>.
\<close>

definition getCommentCounts :: "RelatedCommentCounts \<Rightarrow> Story \<Rightarrow> bool \<Rightarrow> RelatedCommentCounts" where
  "getCommentCounts emptyCounts story negate =
     (let counts = commentCounts story;
          multiplier = (if negate then - 1 else 1);
          result1 = (case action_Stored counts of
                       None \<Rightarrow> emptyCounts
                     | Some a \<Rightarrow> emptyCounts\<lparr>action := scaleInto multiplier a (action emptyCounts)\<rparr>);
          result2 = (case moderationQueue_Stored counts of
                       None \<Rightarrow> result1
                     | Some mq \<Rightarrow>
                         result1\<lparr>moderationQueue :=
                           \<lparr>total = total mq * multiplier,
                            queues = scaleInto multiplier (queues mq)
                                       (queues (moderationQueue result1))\<rparr>\<rparr>)
      in case status_Stored counts of
           None \<Rightarrow> result2
         | Some s \<Rightarrow> result2\<lparr>status_Counts := scaleInto multiplier s (status_Counts result2)\<rparr>)"

subsection \<open>The stores\<close>

text \<open>
  Modelled from the spec: the documents of the comment actions and of the moderation
  actions are declared outside the sources. The fields here are the ones that the
  queries of \<open>archiveStory\<close> and \<open>moveDocuments\<close> read.
\<close>

record CommentAction =
  id_CommentAction :: string
  tenantID_CommentAction :: string
  storyID_CommentAction :: string
  commentID_CommentAction :: string

record CommentModerationAction =
  id_ModerationAction :: string
  tenantID_ModerationAction :: string
  commentID_ModerationAction :: string

text \<open>
  The live database carries, besides the collections the source names, the state \<open>'s\<close>
  that \<^verbatim>\<open>updateSiteCounts\<close> writes to. The cache is a state \<open>'r\<close> of its own.
\<close>

record 's LiveDb =
  stories :: "Story list"
  comments :: "Comment list"
  commentActions :: "CommentAction list"
  commentModerationActions :: "CommentModerationAction list"
  siteCounts :: 's

record ArchiveDb =
  archivedComments :: "Comment list"
  archivedCommentActions :: "CommentAction list"
  archivedCommentModerationActions :: "CommentModerationAction list"

record 's MongoContext =
  live :: "'s LiveDb"
  archive :: "ArchiveDb option"

text \<open>
  \<^verbatim>\<open>createEmptyRelatedCommentCounts\<close>, \<^verbatim>\<open>updateSiteCounts\<close> (coral-server/models/site) and
  \<^verbatim>\<open>updateSharedCommentCounts\<close> (coral-server/models/comment/counts) are not among the
  sources. They are arguments of the model, collected in one record.
\<close>

record ('s, 'r) Collaborators =
  createEmptyRelatedCommentCounts :: RelatedCommentCounts
  updateSiteCounts :: "'s LiveDb \<Rightarrow> string \<Rightarrow> string \<Rightarrow> RelatedCommentCounts \<Rightarrow> 's LiveDb"
  updateSharedCommentCounts :: "'r \<Rightarrow> string \<Rightarrow> RelatedCommentCounts \<Rightarrow> 'r"

subsection \<open>moveDocuments\<close>

definition BATCH_SIZE :: nat where
  "BATCH_SIZE = 100"

text \<open>
  The bulk delete \<^verbatim>\<open>find({ tenantID, id: { $in: deleteIDs } }).remove()\<close>. \<open>docID\<close> reads
  the \<^verbatim>\<open>id\<close> of a document (\<open>None\<close> when it has no such property) and \<open>docTenant\<close> its tenant.
\<close>

definition bulkRemove ::
  "('d \<Rightarrow> string option) \<Rightarrow> ('d \<Rightarrow> string) \<Rightarrow> string \<Rightarrow> string list \<Rightarrow> 'd list \<Rightarrow> 'd list" where
  "bulkRemove docID docTenant tenantID' deleteIDs source =
     filter (\<lambda>d. \<not> (docTenant d = tenantID' \<and>
                     (case docID d of None \<Rightarrow> False | Some i \<Rightarrow> List.member deleteIDs i)))
       source"

text \<open>
  The loop of \<open>moveDocuments\<close> over the documents of the selection cursor, with the
  variables \<open>insertBatch\<close>, \<open>deleteIDs\<close> and \<open>allIDs\<close> of the source and the two collections.
  The first equation is the code after the loop.
\<close>

fun moveLoop ::
  "('d \<Rightarrow> string option) \<Rightarrow> ('d \<Rightarrow> string) \<Rightarrow> string \<Rightarrow> bool \<Rightarrow> 'd list
     \<Rightarrow> 'd list \<Rightarrow> string list \<Rightarrow> string list \<Rightarrow> 'd list \<Rightarrow> 'd list
     \<Rightarrow> string list \<times> 'd list \<times> 'd list" where
  "moveLoop docID docTenant tenantID' returnMovedIDs [] insertBatch deleteIDs allIDs source destination =
     (let destination' = (if length insertBatch > 0 then destination @ insertBatch else destination);
          source' = (if length deleteIDs > 0
                     then bulkRemove docID docTenant tenantID' deleteIDs source else source)
      in (allIDs, source', destination'))"
| "moveLoop docID docTenant tenantID' returnMovedIDs (document # rest) insertBatch deleteIDs allIDs source destination =
     (let insertBatch' = insertBatch @ [document];
          deleteIDs' = (case docID document of None \<Rightarrow> deleteIDs | Some i \<Rightarrow> deleteIDs @ [i]);
          allIDs' = (case docID document of
                       None \<Rightarrow> allIDs
                     | Some i \<Rightarrow> if returnMovedIDs then allIDs @ [i] else allIDs)
      in if length insertBatch' \<ge> BATCH_SIZE
         then moveLoop docID docTenant tenantID' returnMovedIDs rest [] [] allIDs'
                (bulkRemove docID docTenant tenantID' deleteIDs' source)
                (destination @ insertBatch')
         else moveLoop docID docTenant tenantID' returnMovedIDs rest insertBatch' deleteIDs' allIDs'
                source destination)"

text \<open>
  \<open>moveDocuments\<close> returns the moved ids with the source and the destination after the
  move. The cursor is the list of the documents it selects.
\<close>

definition moveDocuments ::
  "('d \<Rightarrow> string option) \<Rightarrow> ('d \<Rightarrow> string) \<Rightarrow> string \<Rightarrow> 'd list \<Rightarrow> 'd list \<Rightarrow> 'd list \<Rightarrow> bool
     \<Rightarrow> string list \<times> 'd list \<times> 'd list" where
  "moveDocuments docID docTenant tenantID' source selectionCursor destination returnMovedIDs =
     moveLoop docID docTenant tenantID' returnMovedIDs selectionCursor [] [] [] source destination"

subsection \<open>archiveStory and unarchiveStory\<close>

text \<open>
  The result is the value returned (\<open>None\<close> for \<^verbatim>\<open>undefined\<close> and for a null
  \<^verbatim>\<open>result.value\<close>) or the error thrown, with the databases and the cache after the call.
\<close>

definition archiveStory ::
  "('s, 'r) Collaborators \<Rightarrow> 's MongoContext \<Rightarrow> 'r \<Rightarrow> string \<Rightarrow> string
     \<Rightarrow> (error + Story option) \<times> 's MongoContext \<times> 'r" where
  "archiveStory ext mongo redis tenantID' id' =
     (case archive mongo of
        None \<Rightarrow> (Inl ArchiveNotInitialized, mongo, redis)
      | Some arch \<Rightarrow>
          (case findOne (\<lambda>s. id_Story s = id' \<and> tenantID_Story s = tenantID') (stories (live mongo)) of
             None \<Rightarrow> (Inl (StoryNotFoundError id'), mongo, redis)
           | Some targetStory \<Rightarrow>
               if isArchived targetStory then (Inr None, mongo, redis)
               else
                 (let targetComments =
                        filter (\<lambda>c. tenantID c = tenantID' \<and> storyID c = id') (comments (live mongo));
                      targetCommentActions =
                        filter (\<lambda>a. tenantID_CommentAction a = tenantID' \<and> storyID_CommentAction a = id')
                          (commentActions (live mongo));
                      (targetCommentIDs, liveComments, archComments) =
                        moveDocuments (\<lambda>c. Some (id_Comment c)) tenantID tenantID'
                          (comments (live mongo)) targetComments (archivedComments arch) True;
                      targetCommentModerationActions =
                        filter (\<lambda>a. tenantID_ModerationAction a = tenantID' \<and>
                                     List.member targetCommentIDs (commentID_ModerationAction a))
                          (commentModerationActions (live mongo));
                      (_, liveActions, archActions) =
                        moveDocuments (\<lambda>a. Some (id_CommentAction a)) tenantID_CommentAction tenantID'
                          (commentActions (live mongo)) targetCommentActions
                          (archivedCommentActions arch) False;
                      (_, liveModerations, archModerations) =
                        moveDocuments (\<lambda>a. Some (id_ModerationAction a)) tenantID_ModerationAction tenantID'
                          (commentModerationActions (live mongo)) targetCommentModerationActions
                          (archivedCommentModerationActions arch) False;
                      counts = getCommentCounts (createEmptyRelatedCommentCounts ext) targetStory True;
                      live1 = (live mongo)\<lparr>comments := liveComments, commentActions := liveActions,
                                            commentModerationActions := liveModerations\<rparr>;
                      live2 = updateSiteCounts ext live1 tenantID' id' counts;
                      redis' = updateSharedCommentCounts ext redis tenantID' counts;
                      (result, stories') =
                        findOneAndUpdate (\<lambda>s. id_Story s = id' \<and> tenantID_Story s = tenantID')
                          (\<lambda>s. s\<lparr>isArchiving := False, isArchived := True\<rparr>) (stories live2)
                  in (Inr (map_option (\<lambda>s. s\<lparr>isArchiving := False, isArchived := True\<rparr>) result),
                      \<lparr>live = live2\<lparr>stories := stories'\<rparr>,
                       archive = Some \<lparr>archivedComments = archComments,
                                       archivedCommentActions = archActions,
                                       archivedCommentModerationActions = archModerations\<rparr>\<rparr>,
                      redis'))))"

definition unarchiveStory ::
  "('s, 'r) Collaborators \<Rightarrow> 's MongoContext \<Rightarrow> 'r \<Rightarrow> string \<Rightarrow> string
     \<Rightarrow> (error + Story option) \<times> 's MongoContext \<times> 'r" where
  "unarchiveStory ext mongo redis tenantID' id' =
     (case archive mongo of
        None \<Rightarrow> (Inl ArchiveNotInitialized, mongo, redis)
      | Some arch \<Rightarrow>
          (case findOne (\<lambda>s. id_Story s = id' \<and> tenantID_Story s = tenantID') (stories (live mongo)) of
             None \<Rightarrow> (Inl (StoryNotFoundError id'), mongo, redis)
           | Some targetStory \<Rightarrow>
               if \<not> isArchived targetStory then (Inr None, mongo, redis)
               else
                 (let targetComments =
                        filter (\<lambda>c. tenantID c = tenantID' \<and> storyID c = id') (archivedComments arch);
                      targetCommentActions =
                        filter (\<lambda>a. tenantID_CommentAction a = tenantID' \<and> storyID_CommentAction a = id')
                          (archivedCommentActions arch);
                      (targetCommentIDs, archComments, liveComments) =
                        moveDocuments (\<lambda>c. Some (id_Comment c)) tenantID tenantID'
                          (archivedComments arch) targetComments (comments (live mongo)) True;
                      targetCommentModerationActions =
                        filter (\<lambda>a. tenantID_ModerationAction a = tenantID' \<and>
                                     List.member targetCommentIDs (commentID_ModerationAction a))
                          (archivedCommentModerationActions arch);
                      (_, archActions, liveActions) =
                        moveDocuments (\<lambda>a. Some (id_CommentAction a)) tenantID_CommentAction tenantID'
                          (archivedCommentActions arch) targetCommentActions
                          (commentActions (live mongo)) False;
                      (_, archModerations, liveModerations) =
                        moveDocuments (\<lambda>a. Some (id_ModerationAction a)) tenantID_ModerationAction tenantID'
                          (archivedCommentModerationActions arch) targetCommentModerationActions
                          (commentModerationActions (live mongo)) False;
                      counts = getCommentCounts (createEmptyRelatedCommentCounts ext) targetStory False;
                      live1 = (live mongo)\<lparr>comments := liveComments, commentActions := liveActions,
                                            commentModerationActions := liveModerations\<rparr>;
                      live2 = updateSiteCounts ext live1 tenantID' id' counts;
                      redis' = updateSharedCommentCounts ext redis tenantID' counts;
                      (result, stories') =
                        findOneAndUpdate (\<lambda>s. id_Story s = id' \<and> tenantID_Story s = tenantID')
                          (\<lambda>s. s\<lparr>isArchiving := False, isArchived := False\<rparr>) (stories live2)
                  in (Inr (map_option (\<lambda>s. s\<lparr>isArchiving := False, isArchived := False\<rparr>) result),
                      \<lparr>live = live2\<lparr>stories := stories'\<rparr>,
                       archive = Some \<lparr>archivedComments = archComments,
                                       archivedCommentActions = archActions,
                                       archivedCommentModerationActions = archModerations\<rparr>\<rparr>,
                      redis'))))"

text \<open>
  What the properties of the value returned need of \<^verbatim>\<open>updateSiteCounts\<close>: it neither
  adds nor removes a story and changes no story's id or tenant (it may change the counters).
\<close>

definition storyKey :: "Story \<Rightarrow> string \<times> string" where
  "storyKey s = (id_Story s, tenantID_Story s)"

definition keepsStories :: "('s, 'r) Collaborators \<Rightarrow> bool" where
  "keepsStories ext =
     (\<forall>db tenantID' id' counts.
        map storyKey (stories (updateSiteCounts ext db tenantID' id' counts)) = map storyKey (stories db))"

section \<open>Example documents\<close>

text \<open>A one-revision comment of author alice, created at time 5, and an edit request for it.\<close>

definition c0 :: Comment where
  "c0 = \<lparr>id_Comment = ''c1'', tenantID = ''t1'', ancestorIDs = [], parentID = None,
         parentRevisionID = None, authorID = Some ''alice'', storyID = ''s1'', siteID = ''site1'',
         section_Comment = None,
         revisions = [\<lparr>id_Revision = ''r1'', body = ''hello'', actionCounts_Revision = [],
                       metadata = None, createdAt_Revision = 5, media = None\<rparr>],
         status = NONE, actionCounts = [], childIDs = [], tags = [], rating = None,
         childCount = 0, createdAt = 5, deletedAt = None\<rparr>"

definition in0 :: EditCommentInput where
  "in0 = \<lparr>id_Input = ''c1'', authorID_Input = Some ''alice'', status_Input = NONE,
          lastEditableCommentCreatedAt = 10, body_Input = ''edited'', metadata_Input = None,
          media_Input = None, actionCounts_Input = None\<rparr>"

text \<open>A reply whose only ancestor is the comment p1.\<close>

definition reply0 :: Comment where
  "reply0 = c0\<lparr>id_Comment := ''c2'', ancestorIDs := [''p1''], parentID := Some ''p1''\<rparr>"

text \<open>
  Five comments of one tenant with the reply counts 0, 5, 3, 5, 1, and the request for
  the first page of two by reply count.
\<close>

definition ranked_comments :: "Comment list" where
  "ranked_comments =
     [c0\<lparr>id_Comment := ''a'', childCount := 0, createdAt := 1\<rparr>,
      c0\<lparr>id_Comment := ''b'', childCount := 5, createdAt := 2\<rparr>,
      c0\<lparr>id_Comment := ''c'', childCount := 3, createdAt := 3\<rparr>,
      c0\<lparr>id_Comment := ''d'', childCount := 5, createdAt := 4\<rparr>,
      c0\<lparr>id_Comment := ''e'', childCount := 1, createdAt := 5\<rparr>]"

definition first_page :: CommentConnectionInput where
  "first_page = \<lparr>first = 2, after_Connection = None, orderBy = REPLIES_DESC,
                 filter_Connection = None\<rparr>"

text \<open>
  An empty aggregate and a snapshot with counters, a story that holds the snapshot, and
  collaborators that record the deltas they are given. \<open>live_context\<close> has the story live
  with the comment \<open>c0\<close>; \<open>archived_context\<close> has it archived.
\<close>

definition no_counts :: RelatedCommentCounts where
  "no_counts = \<lparr>action = Map.empty,
                moderationQueue = \<lparr>total = 0, queues = [''unmoderated'' \<mapsto> 0]\<rparr>,
                status_Counts = [''APPROVED'' \<mapsto> 0, ''PREMOD'' \<mapsto> 0]\<rparr>"

definition some_counts :: RelatedCommentCounts where
  "some_counts = \<lparr>action = [''REACTION'' \<mapsto> 7],
                moderationQueue = \<lparr>total = 1, queues = [''unmoderated'' \<mapsto> 1]\<rparr>,
                status_Counts = [''APPROVED'' \<mapsto> 2, ''PREMOD'' \<mapsto> 1]\<rparr>"

definition story0 :: Story where
  "story0 = \<lparr>id_Story = ''s1'', tenantID_Story = ''t1'', commentCounts = stored some_counts,
             isArchiving = False, isArchived = False\<rparr>"

definition ext0 :: "(RelatedCommentCounts list, RelatedCommentCounts list) Collaborators" where
  "ext0 = \<lparr>createEmptyRelatedCommentCounts = no_counts,
           updateSiteCounts = (\<lambda>db _ _ counts. db\<lparr>siteCounts := counts # siteCounts db\<rparr>),
           updateSharedCommentCounts = (\<lambda>redis _ counts. counts # redis)\<rparr>"

definition live_context :: "RelatedCommentCounts list MongoContext" where
  "live_context =
     \<lparr>live = \<lparr>stories = [story0], comments = [c0], commentActions = [],
              commentModerationActions = [], siteCounts = []\<rparr>,
      archive = Some \<lparr>archivedComments = [], archivedCommentActions = [],
                      archivedCommentModerationActions = []\<rparr>\<rparr>"

definition archived_context :: "RelatedCommentCounts list MongoContext" where
  "archived_context =
     \<lparr>live = \<lparr>stories = [story0\<lparr>isArchived := True\<rparr>], comments = [], commentActions = [],
              commentModerationActions = [], siteCounts = []\<rparr>,
      archive = Some \<lparr>archivedComments = [c0], archivedCommentActions = [],
                      archivedCommentModerationActions = []\<rparr>\<rparr>"

section \<open>Properties of the comment store\<close>

lemma findOneAndUpdate_none:
  "find p coll = None \<Longrightarrow> findOneAndUpdate p u coll = (None, coll)"
  by (induction coll) (auto split: prod.splits if_splits)

text \<open>
  When the conditional update matches nothing and the comment exists, the outcome of
  \<open>editComment\<close> is the verdict of \<open>validateEditable\<close> on the stored comment, or the
  generic failure when \<open>validateEditable\<close> returns; the collection is untouched.
\<close>

lemma editComment_no_match:
  assumes nomatch: "findOne (editFilter tenantID' input) mongo = None"
    and exists: "retrieveComment mongo tenantID' (id_Input input) = Some c"
  shows "editComment mongo tenantID' input uuid now =
     (Inl (case validateEditable c (authorID_Input input) (lastEditableCommentCreatedAt input) of
             Some e \<Rightarrow> e | None \<Rightarrow> CommentEditFailedUnexpected), mongo)"
proof -
  have upd: "\<And>u. findOneAndUpdate (editFilter tenantID' input) u mongo = (None, mongo)"
    using nomatch by (simp add: findOne_def findOneAndUpdate_none)
  show ?thesis
    unfolding editComment_def Let_def upd
    by (simp add: exists split: option.splits)
qed

text \<open>
  C1. When the conditional update of \<open>editComment\<close> matches no document while a comment
  with the given tenantID and id exists, the failure is classified on the re-fetched
  comment in this order: author mismatch, then status not in NONE, PREMOD, APPROVED,
  then createdAt at or before lastEditableCommentCreatedAt (the edit window expired),
  then the generic failure. An author or status failure is therefore reported before
  a timing failure. The collection is left unchanged.
\<close>

theorem C1_editComment_failure_classification:
  assumes nomatch: "findOne (editFilter tenantID' input) mongo = None"
    and exists: "retrieveComment mongo tenantID' (id_Input input) = Some c"
  shows "editComment mongo tenantID' input uuid now =
     (Inl (if authorID c \<noteq> authorID_Input input then CommentAuthorMismatch
           else if status c \<notin> {NONE, PREMOD, APPROVED} then CommentStatusNotEditable
           else if createdAt c \<le> lastEditableCommentCreatedAt input
             then CommentEditWindowExpiredError (id_Comment c)
           else CommentEditFailedUnexpected), mongo)"
  using editComment_no_match [OF nomatch exists, of uuid now]
  by (simp add: validateEditable_def EDITABLE_STATUSES_def)

theorem C1_witness:
  "findOne (editFilter ''t1'' in0) [c0] = None \<and>
   retrieveComment [c0] ''t1'' (id_Input in0) = Some c0 \<and>
   editComment [c0] ''t1'' in0 ''r2'' 20 = (Inl (CommentEditWindowExpiredError ''c1''), [c0])"
proof -
  have a: "findOne (editFilter ''t1'' in0) [c0] = None"
    by (simp add: findOne_def editFilter_def in0_def c0_def)
  have b: "retrieveComment [c0] ''t1'' (id_Input in0) = Some c0"
    by (simp add: retrieveComment_def findOne_def in0_def c0_def)
  from C1_editComment_failure_classification [OF a b, of "''r2''" 20]
  have "editComment [c0] ''t1'' in0 ''r2'' 20 = (Inl (CommentEditWindowExpiredError ''c1''), [c0])"
    by (simp add: in0_def c0_def)
  with a b show ?thesis by simp
qed

lemma unique_key:
  assumes "distinct (map f xs)" and "x \<in> set xs" and "y \<in> set xs" and "f x = f y"
  shows "x = y"
  using assms by (meson distinct_map inj_on_eq_iff)

text \<open>
  With ids unique per tenant, a comment created at or before the boundary keeps the
  conditional update from matching anything.
\<close>

lemma expired_no_match:
  assumes uniq: "distinct (map (\<lambda>c. (tenantID c, id_Comment c)) mongo)"
    and exists: "retrieveComment mongo tenantID' (id_Input input) = Some c"
    and expired: "createdAt c \<le> lastEditableCommentCreatedAt input"
  shows "findOne (editFilter tenantID' input) mongo = None"
proof -
  from exists have c_in: "c \<in> set mongo"
    and c_key: "id_Comment c = id_Input input \<and> tenantID c = tenantID'"
    by (auto simp: retrieveComment_def findOne_def find_Some_iff)
  have "\<not> editFilter tenantID' input d" if d_in: "d \<in> set mongo" for d
  proof
    assume m: "editFilter tenantID' input d"
    then have "(tenantID d, id_Comment d) = (tenantID c, id_Comment c)"
      using c_key by (simp add: editFilter_def)
    with uniq d_in c_in have "d = c" by (rule unique_key)
    with m expired show False by (simp add: editFilter_def)
  qed
  then show ?thesis by (simp add: findOne_def find_None_iff)
qed

text \<open>
  C2, as stated: every \<open>editComment\<close> on an existing comment with
  createdAt at or before lastEditableCommentCreatedAt fails with the edit-window error and
  with no other kind. It fails for the comment \<open>c0\<close> of alice, created at 5, when bob
  asks for the edit with the boundary at 10: the author mismatch is reported.
\<close>

theorem C2_counterexample:
  "\<not> (\<forall>mongo tenantID' input uuid now c.
        retrieveComment mongo tenantID' (id_Input input) = Some c \<and>
        createdAt c \<le> lastEditableCommentCreatedAt input \<longrightarrow>
        fst (editComment mongo tenantID' input uuid now) =
          Inl (CommentEditWindowExpiredError (id_Comment c)))"
proof
  assume all: "\<forall>mongo tenantID' input uuid now c.
        retrieveComment mongo tenantID' (id_Input input) = Some c \<and>
        createdAt c \<le> lastEditableCommentCreatedAt input \<longrightarrow>
        fst (editComment mongo tenantID' input uuid now) =
          Inl (CommentEditWindowExpiredError (id_Comment c))"
  let ?input = "in0\<lparr>authorID_Input := Some ''bob''\<rparr>"
  have a: "retrieveComment [c0] ''t1'' (id_Input ?input) = Some c0"
    by (simp add: retrieveComment_def findOne_def in0_def c0_def)
  have b: "createdAt c0 \<le> lastEditableCommentCreatedAt ?input"
    by (simp add: in0_def c0_def)
  have "fst (editComment [c0] ''t1'' ?input ''r2'' 20) = Inl CommentAuthorMismatch"
    by (simp add: editComment_def editFilter_def retrieveComment_def findOne_def
        validateEditable_def in0_def c0_def)
  moreover from all a b
  have "fst (editComment [c0] ''t1'' ?input ''r2'' 20) =
          Inl (CommentEditWindowExpiredError (id_Comment c0))"
    by blast
  ultimately show False by simp
qed

text \<open>
  C2, amended. In a collection whose ids are unique per tenant, every \<open>editComment\<close> on
  an existing comment with createdAt at or before lastEditableCommentCreatedAt fails and
  changes nothing. The failure is the edit-window error whenever the stored author is
  the input's author and the stored status is one of NONE, PREMOD, APPROVED; otherwise
  the author mismatch, or else the status failure, is reported in its place.
\<close>

theorem C2_editComment_window_expired:
  assumes uniq: "distinct (map (\<lambda>c. (tenantID c, id_Comment c)) mongo)"
    and exists: "retrieveComment mongo tenantID' (id_Input input) = Some c"
    and expired: "createdAt c \<le> lastEditableCommentCreatedAt input"
  shows "editComment mongo tenantID' input uuid now =
     (Inl (if authorID c \<noteq> authorID_Input input then CommentAuthorMismatch
           else if status c \<notin> {NONE, PREMOD, APPROVED} then CommentStatusNotEditable
           else CommentEditWindowExpiredError (id_Comment c)), mongo)"
  using editComment_no_match [OF expired_no_match [OF uniq exists expired] exists, of uuid now]
    expired
  by (simp add: validateEditable_def EDITABLE_STATUSES_def)

theorem C2_witness:
  "distinct (map (\<lambda>c. (tenantID c, id_Comment c)) [c0]) \<and>
   retrieveComment [c0] ''t1'' (id_Input in0) = Some c0 \<and>
   createdAt c0 \<le> lastEditableCommentCreatedAt in0 \<and>
   editComment [c0] ''t1'' in0 ''r2'' 20 = (Inl (CommentEditWindowExpiredError ''c1''), [c0])"
proof -
  have u: "distinct (map (\<lambda>c. (tenantID c, id_Comment c)) [c0])" by simp
  have b: "retrieveComment [c0] ''t1'' (id_Input in0) = Some c0"
    by (simp add: retrieveComment_def findOne_def in0_def c0_def)
  have e: "createdAt c0 \<le> lastEditableCommentCreatedAt in0"
    by (simp add: in0_def c0_def)
  from C2_editComment_window_expired [OF u b e, of "''r2''" 20]
  have "editComment [c0] ''t1'' in0 ''r2'' 20 = (Inl (CommentEditWindowExpiredError ''c1''), [c0])"
    by (simp add: in0_def c0_def)
  with u b e show ?thesis by simp
qed

text \<open>
  C3. \<open>updateCommentActionCounts\<close> is to fail with \<open>CommentRevisionNotFoundError\<close> exactly
  when no revision of the comment has the given revisionID, and to change no counter
  then. On the comment \<open>c0\<close>, whose only revision is r1, a call for revision r9 does not
  fail: it returns the comment with the comment-level REACTION count incremented and
  stores it, and no revision is touched.
\<close>

theorem C3_updateCommentActionCounts_unknown_revision:
  "list_all (\<lambda>r. id_Revision r \<noteq> ''r9'') (revisions c0) \<and>
   updateCommentActionCounts [c0] ''t1'' ''c1'' ''r9'' [(''REACTION'', 1)] =
     (Inr (c0\<lparr>actionCounts := [(''REACTION'', 1)]\<rparr>),
      [c0\<lparr>actionCounts := [(''REACTION'', 1)]\<rparr>])"
  by (simp add: updateCommentActionCounts_def inc_counts_def c0_def)

text \<open>
  C9. \<open>pushChildCommentIDOntoParent\<close> with a parentID that identifies no comment of the
  tenant returns null, raises nothing (its result type has no failure) and leaves every
  document as it was.
\<close>

theorem C9_pushChild_missing_parent:
  assumes "retrieveComment mongo tenantID' parentID' = None"
  shows "pushChildCommentIDOntoParent mongo tenantID' parentID' childID = (None, mongo)"
proof -
  from assms have "find (\<lambda>c. tenantID c = tenantID' \<and> id_Comment c = parentID') mongo = None"
    by (auto simp: retrieveComment_def findOne_def find_None_iff)
  then show ?thesis
    unfolding pushChildCommentIDOntoParent_def by (rule findOneAndUpdate_none)
qed

theorem C9_witness:
  "retrieveComment [c0] ''t1'' ''nobody'' = None \<and>
   pushChildCommentIDOntoParent [c0] ''t1'' ''nobody'' ''c2'' = (None, [c0])"
proof -
  have a: "retrieveComment [c0] ''t1'' ''nobody'' = None"
    by (simp add: retrieveComment_def findOne_def c0_def)
  from C9_pushChild_missing_parent [OF a, of "''c2''"] a show ?thesis by simp
qed

section \<open>Properties of the connections\<close>

text \<open>
  When some requested ancestor is stored and another one is not, the list that
  \<open>retrieveManyComments\<close> returns holds a null.
\<close>

lemma retrieveManyComments_missing:
  assumes some: "\<exists>c \<in> set collection. id_Comment c \<in> set ids \<and> tenantID c = tenantID'"
    and missing: "\<exists>i \<in> set ids. \<forall>c \<in> set collection. \<not> (id_Comment c = i \<and> tenantID c = tenantID')"
  shows "\<not> doesNotContainNull (retrieveManyComments collection tenantID' ids)"
proof -
  let ?items = "filter (\<lambda>c. List.member ids (id_Comment c) \<and> tenantID c = tenantID') collection"
  from some have ne: "?items \<noteq> []" by (auto simp: filter_empty_conv)
  from missing obtain i where i: "i \<in> set ids"
    and no: "\<forall>c \<in> set collection. \<not> (id_Comment c = i \<and> tenantID c = tenantID')" by blast
  have "find (\<lambda>comment. id_Comment comment = i) ?items = None"
    using no by (auto simp: find_None_iff)
  with i ne show ?thesis
    by (auto simp: retrieveManyComments_def doesNotContainNull_def list_all_iff Let_def image_iff)
qed

text \<open>
  So with a positive limit, a requested ancestor that is not stored makes
  \<open>retrieveCommentParentsConnection\<close> fail as soon as another requested ancestor is stored.
\<close>

lemma retrieveCommentParentsConnection_missing:
  assumes anc: "hasAncestors comment" and pos: "0 < limit"
    and ids: "ids = slice (ancestorIDs comment) (case before' of None \<Rightarrow> 0 | Some b \<Rightarrow> b)
                      ((case before' of None \<Rightarrow> 0 | Some b \<Rightarrow> b) + limit)"
    and some: "\<exists>c \<in> set collection. id_Comment c \<in> set ids \<and> tenantID c = tenantID'"
    and missing: "\<exists>i \<in> set ids. \<forall>c \<in> set collection. \<not> (id_Comment c = i \<and> tenantID c = tenantID')"
  shows "retrieveCommentParentsConnection collection tenantID' comment limit before' =
           Inl ParentDoesNotExist"
  using retrieveManyComments_missing [OF some missing] anc pos
  by (simp add: retrieveCommentParentsConnection_def ids Let_def)

text \<open>
  C4. \<open>retrieveCommentParentsConnection\<close> with a positive limit is to fail whenever a
  requested ancestor id resolves to no stored comment, also when none of the requested
  ids resolves. For the reply \<open>reply0\<close>, whose only ancestor p1 is not stored, the call
  with limit 1 returns an empty page and no failure: \<open>retrieveManyComments\<close> returns the
  empty list when it finds no document at all, and the empty list holds no null.
\<close>

theorem C4_parents_all_missing:
  "retrieveCommentParentsConnection [reply0] ''t1'' reply0 1 None =
     Inr \<lparr>edges = [], nodes = [],
          pageInfo = \<lparr>hasNextPage = False, hasPreviousPage = False,
                      startCursor = None, endCursor = None\<rparr>\<rparr>"
  by (simp add: retrieveCommentParentsConnection_def hasAncestors_def slice_def
      retrieveManyComments_def doesNotContainNull_def nodesToEdges_def List.map_filter_simps
      reply0_def c0_def)

text \<open>
  C5, as stated: for every comment, limit 0 gives an empty page with
  \<open>hasPreviousPage\<close> true. For the top-level comment \<open>c0\<close> the page has
  \<open>hasPreviousPage\<close> false: the check for ancestors comes before the check of the limit.
\<close>

theorem C5_counterexample:
  "\<not> (\<forall>collection tenantID' comment before'. \<exists>conn.
        retrieveCommentParentsConnection collection tenantID' comment 0 before' = Inr conn \<and>
        nodes conn = [] \<and> edges conn = [] \<and> hasPreviousPage (pageInfo conn))"
proof
  assume "\<forall>collection tenantID' comment before'. \<exists>conn.
        retrieveCommentParentsConnection collection tenantID' comment 0 before' = Inr conn \<and>
        nodes conn = [] \<and> edges conn = [] \<and> hasPreviousPage (pageInfo conn)"
  then obtain conn where "retrieveCommentParentsConnection [c0] ''t1'' c0 0 None = Inr conn"
    and "hasPreviousPage (pageInfo conn)" by blast
  then show False
    by (auto simp: retrieveCommentParentsConnection_def hasAncestors_def createConnection_def c0_def)
qed

text \<open>
  C5, amended. For every comment, limit 0 gives a page with no node and no edge, and
  no failure; \<open>hasPreviousPage\<close> is true exactly when the comment has ancestors (and the
  two cursors are then 0, otherwise absent).
\<close>

theorem C5_parents_zero_limit:
  "retrieveCommentParentsConnection collection tenantID' comment 0 before' =
     Inr \<lparr>edges = [], nodes = [],
          pageInfo = \<lparr>hasNextPage = False, hasPreviousPage = hasAncestors comment,
                      startCursor = (if hasAncestors comment then Some (CursorNumber 0) else None),
                      endCursor = (if hasAncestors comment then Some (CursorNumber 0) else None)\<rparr>\<rparr>"
  by (simp add: retrieveCommentParentsConnection_def createConnection_def)

lemma below_irrefl: "\<not> below x x"
  by (cases x) auto

lemma below_linear: "x \<noteq> y \<Longrightarrow> below x y \<or> below y x"
  by (cases x; cases y) auto

lemma below_trans: "below x y \<Longrightarrow> below y z \<Longrightarrow> below x z"
  by (cases x; cases y; cases z) auto

lemma precedes_total: "precedes spec a b \<or> precedes spec b a"
proof (induction spec)
  case Nil
  show ?case by simp
next
  case (Cons fd rest)
  obtain f d where fd: "fd = (f, d)" by (cases fd)
  show ?case
  proof (cases "fieldValue f a = fieldValue f b")
    case True
    with Cons fd show ?thesis by simp
  next
    case False
    from below_linear [OF False] False fd show ?thesis by auto
  qed
qed

lemma precedes_trans:
  "precedes spec a b \<Longrightarrow> precedes spec b c \<Longrightarrow> precedes spec a c"
proof (induction spec)
  case Nil
  show ?case by simp
next
  case (Cons fd rest)
  obtain f d where fd: "fd = (f, d)" by (cases fd)
  let ?x = "fieldValue f a" and ?y = "fieldValue f b" and ?z = "fieldValue f c"
  show ?case
  proof (cases "?x = ?y")
    case xy: True
    show ?thesis
    proof (cases "?y = ?z")
      case True
      with xy Cons fd show ?thesis by simp
    next
      case False
      with xy Cons.prems fd show ?thesis by (simp split: if_splits)
    qed
  next
    case xy: False
    show ?thesis
    proof (cases "?y = ?z")
      case True
      with xy Cons.prems fd show ?thesis by (simp split: if_splits)
    next
      case yz: False
      show ?thesis
      proof (cases "d < 0")
        case True
        with xy yz Cons.prems fd have "below ?y ?x" "below ?z ?y" by simp_all
        then have zx: "below ?z ?x" by (rule below_trans [rotated])
        then have "?x \<noteq> ?z" using below_irrefl by auto
        with zx True fd show ?thesis by simp
      next
        case False
        with xy yz Cons.prems fd have "below ?x ?y" "below ?y ?z" by simp_all
        then have xz: "below ?x ?z" by (rule below_trans)
        then have "?x \<noteq> ?z" using below_irrefl by auto
        with xz False fd show ?thesis by simp
      qed
    qed
  qed
qed

lemma set_insert_by: "set (insert_by le x xs) = insert x (set xs)"
  by (induction xs) auto

lemma sorted_insert_by:
  assumes total: "\<And>a b. le a b \<or> le b a"
    and trans: "\<And>a b c. le a b \<Longrightarrow> le b c \<Longrightarrow> le a c"
  shows "sorted_wrt le xs \<Longrightarrow> sorted_wrt le (insert_by le x xs)"
proof (induction xs)
  case Nil
  show ?case by simp
next
  case (Cons y ys)
  show ?case
  proof (cases "le x y")
    case True
    with Cons.prems trans show ?thesis by auto
  next
    case False
    with total have "le y x" by blast
    with Cons False show ?thesis by (auto simp: set_insert_by)
  qed
qed

lemma sorted_sort_by:
  assumes total: "\<And>a b. le a b \<or> le b a"
    and trans: "\<And>a b c. le a b \<Longrightarrow> le b c \<Longrightarrow> le a c"
  shows "sorted_wrt le (sort_by le xs)"
  unfolding sort_by_def
  by (induction xs) (simp_all add: sorted_insert_by [OF total trans])

lemma set_sort_by: "set (sort_by le xs) = set xs"
  unfolding sort_by_def by (induction xs) (simp_all add: set_insert_by)

lemma sorted_ordered: "sorted_wrt (precedes (sort_Query q)) (ordered q)"
  unfolding ordered_def
  by (rule sorted_sort_by) (rule precedes_total, erule (1) precedes_trans)

lemma length_nodesToEdges: "length (nodesToEdges ns t) = length ns"
  by (simp add: nodesToEdges_def)

lemma nth_nodesToEdges:
  "k < length ns \<Longrightarrow> nodesToEdges ns t ! k = \<lparr>node = ns ! k, cursor = t (ns ! k) (int k)\<rparr>"
  by (simp add: nodesToEdges_def nth_enumerate_eq)

lemma precedes_two:
  "precedes [(f, -1), (Field_createdAt, -1)] a b =
     (below (fieldValue f b) (fieldValue f a) \<or>
      (fieldValue f a = fieldValue f b \<and> createdAt b \<le> createdAt a))"
proof (cases "fieldValue f a = fieldValue f b")
  case True
  then show ?thesis using below_irrefl [of "fieldValue f b"] by auto
next
  case False
  then show ?thesis by simp
qed

lemma precedes_count:
  assumes "order = REPLIES_DESC \<or> order = REACTION_DESC"
  shows "precedes (sort_Query (applyInputToQuery order None q)) a b = rankedBefore order a b"
  using assms
proof
  assume "order = REPLIES_DESC"
  then show ?thesis
    using precedes_two [of Field_childCount a b]
    by (simp add: rankedBefore_def query_orderBy_def del: precedes.simps)
next
  assume "order = REACTION_DESC"
  then show ?thesis
    using precedes_two [of Field_actionCounts_REACTION a b]
    by (simp add: rankedBefore_def query_orderBy_def del: precedes.simps)
qed

lemma ordered_applyInput:
  assumes ord: "order = REPLIES_DESC \<or> order = REACTION_DESC"
  shows "ordered (applyInputToQuery order a q) = ordered (applyInputToQuery order None q)"
  using ord by (auto simp: ordered_def query_orderBy_def query_after_def Let_def)

lemma skip_applyInput:
  assumes ord: "order = REPLIES_DESC \<or> order = REACTION_DESC"
    and aft: "a = None \<and> c = 0 \<or> a = Some (CursorNumber (int c))"
    and q: "skip_Query q = 0"
  shows "skip_Query (applyInputToQuery order a q) = int c"
  using ord aft q by (auto simp: query_orderBy_def query_after_def Let_def)

lemma exec_applyInput:
  assumes ord: "order = REPLIES_DESC \<or> order = REACTION_DESC"
    and aft: "a = None \<and> c = 0 \<or> a = Some (CursorNumber (int c))"
    and q: "skip_Query q = 0"
  shows "exec (query_first n (applyInputToQuery order a q)) =
         take n (drop c (ordered (applyInputToQuery order None q)))"
proof -
  let ?q = "applyInputToQuery order a q"
  have "exec (query_first n ?q) = take n (drop (nat (skip_Query ?q)) (ordered ?q))"
    by (simp add: exec_def query_first_def ordered_def)
  also have "skip_Query ?q = int c"
    by (rule skip_applyInput [OF ord aft q])
  also have "ordered ?q = ordered (applyInputToQuery order None q)"
    by (rule ordered_applyInput [OF ord])
  finally show ?thesis by simp
qed

lemma transformer_applyInput:
  assumes ord: "order = REPLIES_DESC \<or> order = REACTION_DESC"
    and aft: "a = None \<and> c = 0 \<or> a = Some (CursorNumber (int c))"
  shows "cursorGetterFactory order a = (\<lambda>_ index. CursorNumber (int c + index + 1))"
  using ord aft by (auto simp: fun_eq_iff)

lemma connection_page:
  assumes ord: "orderBy input = REPLIES_DESC \<or> orderBy input = REACTION_DESC"
    and aft: "after_Connection input = None \<and> c = 0 \<or>
              after_Connection input = Some (CursorNumber (int c))"
  shows "nodes (retrieveCommentConnection collection tenantID' input) =
           take (first input) (drop c (ranking collection tenantID' input))"
    and "edges (retrieveCommentConnection collection tenantID' input) =
           nodesToEdges (take (first input) (drop c (ranking collection tenantID' input)))
             (\<lambda>_ index. CursorNumber (int c + index + 1))"
    and "endCursor (pageInfo (retrieveCommentConnection collection tenantID' input)) =
           (let es = edges (retrieveCommentConnection collection tenantID' input)
            in if length es > 0 then Some (cursor (last es)) else None)"
proof -
  let ?q = "case filter_Connection input of
          None \<Rightarrow> query_where (\<lambda>c. tenantID c = tenantID') (new_Query collection)
        | Some p \<Rightarrow> query_where p (query_where (\<lambda>c. tenantID c = tenantID') (new_Query collection))"
  have q: "skip_Query ?q = 0"
    by (simp add: query_where_def new_Query_def Let_def split: option.splits)
  have fetched: "exec (query_first n (applyInputToQuery (orderBy input) (after_Connection input) ?q)) =
      take n (drop c (ranking collection tenantID' input))" for n
    unfolding ranking_def by (rule exec_applyInput [OF ord aft q])
  have conn: "retrieveCommentConnection collection tenantID' input =
      resolveConnection (applyInputToQuery (orderBy input) (after_Connection input) ?q) input
        (cursorGetterFactory (orderBy input) (after_Connection input))"
    by (simp add: retrieveCommentConnection_def retrieveConnection_def Let_def)
  show "nodes (retrieveCommentConnection collection tenantID' input) =
           take (first input) (drop c (ranking collection tenantID' input))"
    unfolding conn resolveConnection_def by (simp add: Let_def fetched min_def)
  show "edges (retrieveCommentConnection collection tenantID' input) =
           nodesToEdges (take (first input) (drop c (ranking collection tenantID' input)))
             (\<lambda>_ index. CursorNumber (int c + index + 1))"
    unfolding conn resolveConnection_def
    by (simp add: Let_def fetched transformer_applyInput [OF ord aft] min_def)
  show "endCursor (pageInfo (retrieveCommentConnection collection tenantID' input)) =
           (let es = edges (retrieveCommentConnection collection tenantID' input)
            in if length es > 0 then Some (cursor (last es)) else None)"
    unfolding conn resolveConnection_def Let_def by simp
qed

lemma sorted_ranking:
  assumes ord: "orderBy input = REPLIES_DESC \<or> orderBy input = REACTION_DESC"
  shows "sorted_wrt (rankedBefore (orderBy input)) (ranking collection tenantID' input)"
proof -
  let ?q = "applyInputToQuery (orderBy input) None
       (case filter_Connection input of
          None \<Rightarrow> query_where (\<lambda>c. tenantID c = tenantID') (new_Query collection)
        | Some p \<Rightarrow> query_where p (query_where (\<lambda>c. tenantID c = tenantID') (new_Query collection)))"
  have "sorted_wrt (precedes (sort_Query ?q)) (ordered ?q)" by (rule sorted_ordered)
  moreover have "precedes (sort_Query ?q) = rankedBefore (orderBy input)"
    using precedes_count [OF ord] by (simp add: fun_eq_iff Let_def)
  ultimately show ?thesis by (simp add: ranking_def)
qed

lemma set_ranking:
  "set (ranking collection tenantID' input) =
     {d \<in> set collection. tenantID d = tenantID' \<and>
        (case filter_Connection input of None \<Rightarrow> True | Some p \<Rightarrow> p d)}"
  by (cases "orderBy input")
     (auto simp: ranking_def ordered_def set_sort_by query_orderBy_def query_where_def
        new_Query_def Let_def split: option.splits)

text \<open>
  C8. For the orderings by reply count and by reaction count, a page fetched after the
  cursor \<open>c\<close> (0 when no cursor is given) holds the comments at the positions \<open>c + 1\<close>,
  \<open>c + 2\<close>, ... of the ranking, the node at index \<open>k\<close> of the page has the cursor
  \<open>c + k + 1\<close>, a full page of \<open>first\<close> nodes has the end cursor \<open>c + first\<close>, and the page
  fetched after that end cursor starts at position \<open>c + first + 1\<close> of the same ranking.
  The ranking is by the count descending, ties by creation time descending.
\<close>

theorem C8_ordinal_cursor:
  assumes ord: "orderBy input = REPLIES_DESC \<or> orderBy input = REACTION_DESC"
    and aft: "after_Connection input = None \<and> c = 0 \<or>
              after_Connection input = Some (CursorNumber (int c))"
  shows "(let page = retrieveCommentConnection collection tenantID' input;
              next = retrieveCommentConnection collection tenantID'
                       (input\<lparr>after_Connection := Some (CursorNumber (int c + int (first input)))\<rparr>);
              all = ranking collection tenantID' input
          in sorted_wrt (rankedBefore (orderBy input)) all \<and>
             nodes page = take (first input) (drop c all) \<and>
             length (edges page) = length (nodes page) \<and>
             (\<forall>k < length (nodes page).
                edges page ! k = \<lparr>node = nodes page ! k, cursor = CursorNumber (int c + int k + 1)\<rparr>) \<and>
             (length (nodes page) = first input \<and> 0 < first input \<longrightarrow>
                endCursor (pageInfo page) = Some (CursorNumber (int c + int (first input)))) \<and>
             nodes next = take (first input) (drop (c + first input) all) \<and>
             (\<forall>k < length (nodes next).
                edges next ! k = \<lparr>node = nodes next ! k,
                                   cursor = CursorNumber (int c + int (first input) + int k + 1)\<rparr>))"
proof -
  let ?L = "first input"
  let ?next = "input\<lparr>after_Connection := Some (CursorNumber (int c + int ?L))\<rparr>"
  let ?page = "retrieveCommentConnection collection tenantID' input"
  let ?all = "ranking collection tenantID' input"
  have ord': "orderBy ?next = REPLIES_DESC \<or> orderBy ?next = REACTION_DESC"
    using ord by simp
  have aft': "after_Connection ?next = None \<and> c + ?L = 0 \<or>
              after_Connection ?next = Some (CursorNumber (int (c + ?L)))"
    by simp
  have same: "ranking collection tenantID' ?next = ?all"
    by (simp add: ranking_def)
  note p = connection_page [OF ord aft, of collection tenantID']
  note n = connection_page [OF ord' aft', of collection tenantID', unfolded same]
  have edges_nth: "nodesToEdges ns (\<lambda>_ index. CursorNumber (b + index + 1)) ! k =
      \<lparr>node = ns ! k, cursor = CursorNumber (b + int k + 1)\<rparr>" if "k < length ns" for ns b k
    using that by (rule nth_nodesToEdges)
  have last_cursor: "endCursor (pageInfo ?page) = Some (CursorNumber (int c + int ?L))"
    if full: "length (nodes ?page) = ?L" and pos: "0 < ?L"
  proof -
    let ?es = "edges ?page"
    have len: "length ?es = ?L" using full by (simp add: p length_nodesToEdges)
    with pos have "?es \<noteq> []" by auto
    then have "last ?es = ?es ! (?L - 1)" using len by (simp add: last_conv_nth)
    also have "\<dots> = \<lparr>node = nodes ?page ! (?L - 1), cursor = CursorNumber (int c + int (?L - 1) + 1)\<rparr>"
      unfolding p(2) using full pos by (subst edges_nth) (simp_all add: p(1))
    finally have "cursor (last ?es) = CursorNumber (int c + int ?L)" using pos by simp
    with len pos show ?thesis by (auto simp: p(3) Let_def)
  qed
  show ?thesis
    unfolding Let_def
    apply (intro conjI allI impI)
    subgoal by (rule sorted_ranking [OF ord])
    subgoal by (rule p(1))
    subgoal by (simp add: p length_nodesToEdges)
    subgoal for k unfolding p(2) by (subst edges_nth) (simp_all add: p(1))
    subgoal using last_cursor by simp
    subgoal using n(1) by simp
    subgoal for k unfolding n(2) by (subst edges_nth) (simp_all add: n(1))
    done
qed

theorem C8_witness:
  "orderBy first_page = REPLIES_DESC \<and> after_Connection first_page = None \<and>
   map id_Comment (nodes (retrieveCommentConnection ranked_comments ''t1'' first_page)) = [''d'', ''b''] \<and>
   endCursor (pageInfo (retrieveCommentConnection ranked_comments ''t1'' first_page)) =
     Some (CursorNumber 2) \<and>
   map id_Comment (nodes (retrieveCommentConnection ranked_comments ''t1''
      (first_page\<lparr>after_Connection := Some (CursorNumber 2)\<rparr>))) = [''c'', ''e''] \<and>
   map cursor (edges (retrieveCommentConnection ranked_comments ''t1''
      (first_page\<lparr>after_Connection := Some (CursorNumber 2)\<rparr>))) = [CursorNumber 3, CursorNumber 4]"
proof -
  let ?page = "retrieveCommentConnection ranked_comments ''t1'' first_page"
  let ?next = "retrieveCommentConnection ranked_comments ''t1''
      (first_page\<lparr>after_Connection := Some (CursorNumber 2)\<rparr>)"
  have ord: "orderBy first_page = REPLIES_DESC \<or> orderBy first_page = REACTION_DESC"
    by (simp add: first_page_def)
  have aft: "after_Connection first_page = None \<and> (0::nat) = 0 \<or>
             after_Connection first_page = Some (CursorNumber (int 0))"
    by (simp add: first_page_def)
  have ns: "map id_Comment (nodes ?page) = [''d'', ''b'']" by code_simp
  have nx: "map id_Comment (nodes ?next) = [''c'', ''e'']" by code_simp
  have ex: "map cursor (edges ?next) = [CursorNumber 3, CursorNumber 4]" by code_simp
  have full: "length (nodes ?page) = first first_page \<and> 0 < first first_page"
    using arg_cong [OF ns, of length] by (simp add: first_page_def)
  from C8_ordinal_cursor [OF ord aft, of ranked_comments "''t1''"] full
  have "endCursor (pageInfo ?page) = Some (CursorNumber 2)"
    by (simp add: Let_def first_page_def)
  with ns nx ex show ?thesis by (simp add: first_page_def)
qed

section \<open>Properties of the counts and of the archive\<close>

lemma scaleInto_twice:
  "source key = Some n \<Longrightarrow>
   scaleInto (- 1) (scaleInto (- 1) source target) target' key = Some n"
  by (simp add: scaleInto_def)

lemma scaleInto_twice_eq:
  assumes "dom target \<subseteq> dom source"
  shows "scaleInto (- 1) (scaleInto (- 1) source target) target = source"
proof
  fix key
  show "scaleInto (- 1) (scaleInto (- 1) source target) target key = source key"
  proof (cases "source key")
    case None
    with assms have "target key = None" by blast
    with None show ?thesis by (simp add: scaleInto_def)
  next
    case (Some n)
    then show ?thesis by (simp add: scaleInto_def)
  qed
qed

lemma getCommentCounts_stored:
  "getCommentCounts e (s\<lparr>commentCounts := stored c\<rparr>) negate =
     \<lparr>action = scaleInto (if negate then - 1 else 1) (action c) (action e),
      moderationQueue =
        \<lparr>total = total (moderationQueue c) * (if negate then - 1 else 1),
         queues = scaleInto (if negate then - 1 else 1) (queues (moderationQueue c))
                    (queues (moderationQueue e))\<rparr>,
      status_Counts = scaleInto (if negate then - 1 else 1) (status_Counts c) (status_Counts e)\<rparr>"
  by (simp add: getCommentCounts_def stored_def Let_def)

text \<open>
  C6. Negating a snapshot \<open>c\<close> with \<open>getCommentCounts\<close> and negating the result again
  gives back every counter of \<open>c\<close>: the moderation-queue total, each per-action total,
  each per-queue count and each per-status count. The result is \<open>c\<close> itself when \<open>c\<close>
  holds every counter that the empty aggregate holds (a counter that only the empty
  aggregate has would stay in the result).
\<close>

theorem C6_double_negation:
  "(let delta = getCommentCounts e (s\<lparr>commentCounts := stored c\<rparr>) True;
        back = getCommentCounts e (s'\<lparr>commentCounts := stored delta\<rparr>) True
    in total (moderationQueue back) = total (moderationQueue c) \<and>
       (\<forall>key n. action c key = Some n \<longrightarrow> action back key = Some n) \<and>
       (\<forall>key n. queues (moderationQueue c) key = Some n \<longrightarrow>
                      queues (moderationQueue back) key = Some n) \<and>
       (\<forall>key n. status_Counts c key = Some n \<longrightarrow> status_Counts back key = Some n) \<and>
       (dom (action e) \<subseteq> dom (action c) \<and>
        dom (queues (moderationQueue e)) \<subseteq> dom (queues (moderationQueue c)) \<and>
        dom (status_Counts e) \<subseteq> dom (status_Counts c) \<longrightarrow> back = c))"
  unfolding Let_def getCommentCounts_stored
  by (simp add: scaleInto_twice scaleInto_twice_eq)

theorem C6_witness:
  "dom (action no_counts) \<subseteq> dom (action some_counts) \<and>
   dom (queues (moderationQueue no_counts)) \<subseteq> dom (queues (moderationQueue some_counts)) \<and>
   dom (status_Counts no_counts) \<subseteq> dom (status_Counts some_counts) \<and>
   status_Counts (getCommentCounts no_counts story0 True) ''APPROVED'' = Some (- 2) \<and>
   getCommentCounts no_counts
     (story0\<lparr>commentCounts := stored (getCommentCounts no_counts story0 True)\<rparr>) True = some_counts"
proof -
  have d: "dom (action no_counts) \<subseteq> dom (action some_counts) \<and>
   dom (queues (moderationQueue no_counts)) \<subseteq> dom (queues (moderationQueue some_counts)) \<and>
   dom (status_Counts no_counts) \<subseteq> dom (status_Counts some_counts)"
    by (simp add: no_counts_def some_counts_def)
  have s: "story0\<lparr>commentCounts := stored some_counts\<rparr> = story0"
    by (simp add: story0_def)
  have n: "status_Counts (getCommentCounts no_counts story0 True) ''APPROVED'' = Some (- 2)"
    by (simp add: getCommentCounts_def story0_def stored_def some_counts_def no_counts_def
        scaleInto_def Let_def)
  from C6_double_negation [where e = no_counts and s = story0 and c = some_counts and s' = story0] d
  have "getCommentCounts no_counts
     (story0\<lparr>commentCounts := stored (getCommentCounts no_counts story0 True)\<rparr>) True = some_counts"
    by (simp add: Let_def s)
  with d n show ?thesis by simp
qed

lemma findOneAndUpdate_found:
  assumes "find p xs = Some x" and "p (u x)"
  shows "fst (findOneAndUpdate p u xs) = Some x \<and> find p (snd (findOneAndUpdate p u xs)) = Some (u x)"
  using assms by (induction xs) (auto split: prod.splits if_splits)

lemma find_same_keys:
  assumes "map key xs = map key ys" and "find (\<lambda>x. key x = k) xs = Some x"
  shows "\<exists>y. find (\<lambda>x. key x = k) ys = Some y"
proof -
  from assms(2) have "k \<in> set (map key xs)"
    by (auto simp: find_Some_iff)
  with assms(1) have "k \<in> set (map key ys)" by simp
  then have "find (\<lambda>x. key x = k) ys \<noteq> None"
    by (auto simp: find_None_iff)
  then show ?thesis by auto
qed

lemma story_filter: "(\<lambda>s. id_Story s = i \<and> tenantID_Story s = t) = (\<lambda>s. storyKey s = (i, t))"
  by (auto simp: storyKey_def fun_eq_iff)

lemma archiveStory_success:
  assumes conn: "archive mongo = Some arch"
    and found: "findOne (\<lambda>s. id_Story s = i \<and> tenantID_Story s = t) (stories (live mongo)) = Some s"
    and live: "\<not> isArchived s"
    and keeps: "keepsStories ext"
  shows "\<exists>s'. fst (archiveStory ext mongo redis t i) = Inr (Some s') \<and>
           id_Story s' = i \<and> tenantID_Story s' = t \<and> isArchived s' \<and> \<not> isArchiving s' \<and>
           findOne (\<lambda>s. id_Story s = i \<and> tenantID_Story s = t)
             (stories (live (fst (snd (archiveStory ext mongo redis t i))))) = Some s'"
proof -
  let ?p = "\<lambda>s. id_Story s = i \<and> tenantID_Story s = t"
  let ?u = "\<lambda>s. s\<lparr>isArchiving := False, isArchived := True\<rparr>"
  have ex: "\<exists>y. find ?p (stories (updateSiteCounts ext db t i d)) = Some y"
    if "stories db = stories (live mongo)" for db d
  proof -
    from keeps have "map storyKey (stories (updateSiteCounts ext db t i d)) = map storyKey (stories (live mongo))"
      using that by (simp add: keepsStories_def)
    then have "map storyKey (stories (live mongo)) = map storyKey (stories (updateSiteCounts ext db t i d))"
      by simp
    from find_same_keys [OF this, of "(i, t)" s] found show ?thesis
      by (simp add: story_filter findOne_def)
  qed
  have upd: "\<exists>s2. ?p s2 \<and> fst (findOneAndUpdate ?p ?u (stories (updateSiteCounts ext db t i d))) = Some s2 \<and>
      find ?p (snd (findOneAndUpdate ?p ?u (stories (updateSiteCounts ext db t i d)))) = Some (?u s2)"
    if "stories db = stories (live mongo)" for db d
  proof -
    from ex [OF that, of d] obtain y where y: "find ?p (stories (updateSiteCounts ext db t i d)) = Some y"
      by blast
    then have py: "?p y" by (auto simp: find_Some_iff)
    then have "?p (?u y)" by simp
    from findOneAndUpdate_found [of ?p _ y ?u, OF y this] py show ?thesis by blast
  qed
  show ?thesis
    unfolding archiveStory_def
    using live
    apply (simp add: conn found Let_def split: prod.splits)
    apply (intro allI impI)
    subgoal for ids lc ac x1 la aa x2 lm am r st
      using upd [of "(live mongo)\<lparr>comments := lc, commentActions := la, commentModerationActions := lm\<rparr>"
           "getCommentCounts (createEmptyRelatedCommentCounts ext) s True"]
      by (auto simp: findOne_def)
    done
qed

lemma unarchiveStory_success:
  assumes conn: "archive mongo = Some arch"
    and found: "findOne (\<lambda>s. id_Story s = i \<and> tenantID_Story s = t) (stories (live mongo)) = Some s"
    and archived: "isArchived s"
    and keeps: "keepsStories ext"
  shows "\<exists>s'. fst (unarchiveStory ext mongo redis t i) = Inr (Some s') \<and>
           id_Story s' = i \<and> tenantID_Story s' = t \<and> \<not> isArchived s' \<and> \<not> isArchiving s' \<and>
           findOne (\<lambda>s. id_Story s = i \<and> tenantID_Story s = t)
             (stories (live (fst (snd (unarchiveStory ext mongo redis t i))))) = Some s'"
proof -
  let ?p = "\<lambda>s. id_Story s = i \<and> tenantID_Story s = t"
  let ?u = "\<lambda>s. s\<lparr>isArchiving := False, isArchived := False\<rparr>"
  have ex: "\<exists>y. find ?p (stories (updateSiteCounts ext db t i d)) = Some y"
    if "stories db = stories (live mongo)" for db d
  proof -
    from keeps have "map storyKey (stories (updateSiteCounts ext db t i d)) = map storyKey (stories (live mongo))"
      using that by (simp add: keepsStories_def)
    then have "map storyKey (stories (live mongo)) = map storyKey (stories (updateSiteCounts ext db t i d))"
      by simp
    from find_same_keys [OF this, of "(i, t)" s] found show ?thesis
      by (simp add: story_filter findOne_def)
  qed
  have upd: "\<exists>s2. ?p s2 \<and> fst (findOneAndUpdate ?p ?u (stories (updateSiteCounts ext db t i d))) = Some s2 \<and>
      find ?p (snd (findOneAndUpdate ?p ?u (stories (updateSiteCounts ext db t i d)))) = Some (?u s2)"
    if "stories db = stories (live mongo)" for db d
  proof -
    from ex [OF that, of d] obtain y where y: "find ?p (stories (updateSiteCounts ext db t i d)) = Some y"
      by blast
    then have py: "?p y" by (auto simp: find_Some_iff)
    then have "?p (?u y)" by simp
    from findOneAndUpdate_found [of ?p _ y ?u, OF y this] py show ?thesis by blast
  qed
  show ?thesis
    unfolding unarchiveStory_def
    using archived
    apply (simp add: conn found Let_def split: prod.splits)
    apply (intro allI impI)
    subgoal for ids lc ac x1 la aa x2 lm am r st
      using upd [of "(live mongo)\<lparr>comments := ac, commentActions := aa, commentModerationActions := am\<rparr>"
           "getCommentCounts (createEmptyRelatedCommentCounts ext) s False"]
      by (auto simp: findOne_def)
    done
qed

text \<open>
  C7, as stated: for every story whose \<open>isArchived\<close> is true, \<open>archiveStory\<close> returns
  successfully. It fails when the archive connection is not initialised: the check of
  \<^verbatim>\<open>mongo.archive\<close> comes first.
\<close>

theorem C7_counterexample:
  "\<not> (\<forall>(ext :: (RelatedCommentCounts list, RelatedCommentCounts list) Collaborators) mongo redis t i s.
        findOne (\<lambda>s. id_Story s = i \<and> tenantID_Story s = t) (stories (live mongo)) = Some s \<and>
        isArchived s \<longrightarrow>
        fst (archiveStory ext mongo redis t i) = Inr None)"
proof
  assume all: "\<forall>(ext :: (RelatedCommentCounts list, RelatedCommentCounts list) Collaborators) mongo redis t i s.
        findOne (\<lambda>s. id_Story s = i \<and> tenantID_Story s = t) (stories (live mongo)) = Some s \<and>
        isArchived s \<longrightarrow>
        fst (archiveStory ext mongo redis t i) = Inr None"
  let ?mongo = "archived_context\<lparr>archive := None\<rparr>"
  have a: "findOne (\<lambda>s. id_Story s = ''s1'' \<and> tenantID_Story s = ''t1'') (stories (live ?mongo)) =
      Some (story0\<lparr>isArchived := True\<rparr>)"
    by (simp add: findOne_def archived_context_def story0_def)
  have b: "isArchived (story0\<lparr>isArchived := True\<rparr>)" by simp
  have "fst (archiveStory ext0 ?mongo [] ''t1'' ''s1'') = Inl ArchiveNotInitialized"
    by (simp add: archiveStory_def)
  moreover from all a b have "fst (archiveStory ext0 ?mongo [] ''t1'' ''s1'') = Inr None"
    by blast
  ultimately show False by simp
qed

text \<open>
  C7, amended. For every story whose \<open>isArchived\<close> is true, \<open>archiveStory\<close> moves no
  document, changes no counter of the primary store or of the cache and does not touch
  the story: the databases and the cache after the call are the ones before it. The call
  returns successfully (with no value) when the archive connection is initialised and
  fails with the configuration error when it is not. A second call in a row behaves as
  the first.
\<close>

theorem C7_archive_already_archived:
  assumes found: "findOne (\<lambda>s. id_Story s = i \<and> tenantID_Story s = t) (stories (live mongo)) = Some s"
    and archived: "isArchived s"
  shows "archiveStory ext mongo redis t i =
           (if archive mongo = None then Inl ArchiveNotInitialized else Inr None, mongo, redis) \<and>
         (case archiveStory ext mongo redis t i of
            (r, mongo', redis') \<Rightarrow> archiveStory ext mongo' redis' t i = (r, mongo, redis))"
proof -
  have once: "archiveStory ext mongo redis t i =
           (if archive mongo = None then Inl ArchiveNotInitialized else Inr None, mongo, redis)"
    by (simp add: archiveStory_def found archived split: option.splits)
  then show ?thesis by simp
qed

theorem C7_witness:
  "findOne (\<lambda>s. id_Story s = ''s1'' \<and> tenantID_Story s = ''t1'') (stories (live archived_context)) =
     Some (story0\<lparr>isArchived := True\<rparr>) \<and>
   isArchived (story0\<lparr>isArchived := True\<rparr>) \<and>
   archiveStory ext0 archived_context [] ''t1'' ''s1'' = (Inr None, archived_context, [])"
proof -
  have a: "findOne (\<lambda>s. id_Story s = ''s1'' \<and> tenantID_Story s = ''t1'') (stories (live archived_context)) =
      Some (story0\<lparr>isArchived := True\<rparr>)"
    by (simp add: findOne_def archived_context_def story0_def)
  have b: "isArchived (story0\<lparr>isArchived := True\<rparr>)" by simp
  have c: "archive archived_context \<noteq> None" by (simp add: archived_context_def)
  from C7_archive_already_archived [OF a b, of ext0 "[]"] c
  have "archiveStory ext0 archived_context [] ''t1'' ''s1'' = (Inr None, archived_context, [])"
    by simp
  with a b show ?thesis by simp
qed

text \<open>
  C10. With the archive connection initialised and the story found: in the no-op branch
  (\<open>archiveStory\<close> on an archived story, \<open>unarchiveStory\<close> on a story that is not archived)
  no value is returned; otherwise the value returned is the story as stored after the
  call, with \<open>isArchiving\<close> false and \<open>isArchived\<close> true after \<open>archiveStory\<close>, false after
  \<open>unarchiveStory\<close>.
\<close>

theorem C10_return_value:
  assumes conn: "archive mongo = Some arch"
    and found: "findOne (\<lambda>s. id_Story s = i \<and> tenantID_Story s = t) (stories (live mongo)) = Some s"
    and keeps: "keepsStories ext"
  shows "(isArchived s \<longrightarrow>
            fst (archiveStory ext mongo redis t i) = Inr None \<and>
            (\<exists>s'. fst (unarchiveStory ext mongo redis t i) = Inr (Some s') \<and>
                  id_Story s' = i \<and> tenantID_Story s' = t \<and> \<not> isArchived s' \<and> \<not> isArchiving s' \<and>
                  findOne (\<lambda>s. id_Story s = i \<and> tenantID_Story s = t)
                    (stories (live (fst (snd (unarchiveStory ext mongo redis t i))))) = Some s')) \<and>
         (\<not> isArchived s \<longrightarrow>
            fst (unarchiveStory ext mongo redis t i) = Inr None \<and>
            (\<exists>s'. fst (archiveStory ext mongo redis t i) = Inr (Some s') \<and>
                  id_Story s' = i \<and> tenantID_Story s' = t \<and> isArchived s' \<and> \<not> isArchiving s' \<and>
                  findOne (\<lambda>s. id_Story s = i \<and> tenantID_Story s = t)
                    (stories (live (fst (snd (archiveStory ext mongo redis t i))))) = Some s'))"
proof (intro conjI impI)
  assume a: "isArchived s"
  show "fst (archiveStory ext mongo redis t i) = Inr None"
    by (simp add: archiveStory_def conn found a)
  show "\<exists>s'. fst (unarchiveStory ext mongo redis t i) = Inr (Some s') \<and>
                  id_Story s' = i \<and> tenantID_Story s' = t \<and> \<not> isArchived s' \<and> \<not> isArchiving s' \<and>
                  findOne (\<lambda>s. id_Story s = i \<and> tenantID_Story s = t)
                    (stories (live (fst (snd (unarchiveStory ext mongo redis t i))))) = Some s'"
    by (rule unarchiveStory_success [OF conn found a keeps])
next
  assume a: "\<not> isArchived s"
  show "fst (unarchiveStory ext mongo redis t i) = Inr None"
    by (simp add: unarchiveStory_def conn found a)
  show "\<exists>s'. fst (archiveStory ext mongo redis t i) = Inr (Some s') \<and>
                  id_Story s' = i \<and> tenantID_Story s' = t \<and> isArchived s' \<and> \<not> isArchiving s' \<and>
                  findOne (\<lambda>s. id_Story s = i \<and> tenantID_Story s = t)
                    (stories (live (fst (snd (archiveStory ext mongo redis t i))))) = Some s'"
    by (rule archiveStory_success [OF conn found a keeps])
qed

lemma ext0_keeps: "keepsStories ext0"
  by (simp add: keepsStories_def ext0_def)

theorem C10_witness:
  "archive live_context \<noteq> None \<and>
   findOne (\<lambda>s. id_Story s = ''s1'' \<and> tenantID_Story s = ''t1'') (stories (live live_context)) = Some story0 \<and>
   keepsStories ext0 \<and>
   fst (unarchiveStory ext0 live_context [] ''t1'' ''s1'') = Inr None \<and>
   fst (archiveStory ext0 live_context [] ''t1'' ''s1'') = Inr (Some (story0\<lparr>isArchived := True\<rparr>)) \<and>
   findOne (\<lambda>s. id_Story s = ''s1'' \<and> tenantID_Story s = ''t1'')
     (stories (live (fst (snd (archiveStory ext0 live_context [] ''t1'' ''s1''))))) =
     Some (story0\<lparr>isArchived := True\<rparr>)"
proof -
  have conn: "archive live_context =
      Some \<lparr>archivedComments = [], archivedCommentActions = [], archivedCommentModerationActions = []\<rparr>"
    by (simp add: live_context_def)
  have found: "findOne (\<lambda>s. id_Story s = ''s1'' \<and> tenantID_Story s = ''t1'') (stories (live live_context)) =
      Some story0"
    by (simp add: findOne_def live_context_def story0_def)
  have n: "\<not> isArchived story0" by (simp add: story0_def)
  have r: "fst (archiveStory ext0 live_context [] ''t1'' ''s1'') = Inr (Some (story0\<lparr>isArchived := True\<rparr>))"
    by (simp add: archiveStory_def findOne_def moveDocuments_def BATCH_SIZE_def bulkRemove_def
        live_context_def ext0_def story0_def c0_def Let_def)
  from C10_return_value [OF conn found ext0_keeps, of "[]"] n r
  have "fst (unarchiveStory ext0 live_context [] ''t1'' ''s1'') = Inr None \<and>
     findOne (\<lambda>s. id_Story s = ''s1'' \<and> tenantID_Story s = ''t1'')
       (stories (live (fst (snd (archiveStory ext0 live_context [] ''t1'' ''s1''))))) =
       Some (story0\<lparr>isArchived := True\<rparr>)"
    by auto
  with conn found r ext0_keeps show ?thesis by simp
qed

end
